theory Spec2Isabelle
  imports Main
begin

section \<open>birdwatcher: module whitelist, router construction, access log writer, startup\<close>

text \<open>
  A shallow embedding of \<^verbatim>\<open>birdwatcher.go\<close>. Go strings and byte slices are byte
  sequences, modelled as \<^typ>\<open>string\<close> (a list of 8-bit characters); Go's \<^verbatim>\<open>==\<close> on
  strings compares them byte for byte, as HOL's equality on \<^typ>\<open>string\<close> does.
\<close>

subsection \<open>The module whitelist\<close>

text \<open>
  \<^verbatim>\<open>isModuleEnabled\<close> scans the whitelist from the front and returns at the first
  entry equal to the module.
\<close>

fun isModuleEnabled :: "string \<Rightarrow> string list \<Rightarrow> bool" where
  "isModuleEnabled module [] = False"
| "isModuleEnabled module (enabled # modulesEnabled) =
     (if enabled = module then True else isModuleEnabled module modulesEnabled)"

subsection \<open>Handlers and the router\<close>

text \<open>
  The handlers are built by the \<^verbatim>\<open>endpoints\<close> package: \<^verbatim>\<open>endpoints.Version(v)\<close> and
  \<^verbatim>\<open>endpoints.Endpoint(f)\<close> for a business function \<^verbatim>\<open>f\<close> of that package. Only their
  identity matters here, so a handler is the name of its constructor and its argument.
\<close>

datatype business =
    Status | Protocols | Bgp | Symbols | SymbolTables | SymbolProtocols
  | ProtoRoutes | TableRoutes | ProtoCount | TableCount | RoutesFiltered
  | RoutesNoExport | RoutesPrefixed | RouteNet | RouteNetTable | RoutesPeer | RoutesDump

datatype Handle = Version string | Endpoint business

text \<open>
  Modelled from the spec: the router type and its registration belong to the external
  package \<^verbatim>\<open>httprouter\<close>, which is not part of the source. Sections 3 and 4.1 of the
  specification describe the router as a mapping built once from (method, path pattern)
  to handler, in which re-registration of a route is forbidden. The model keeps the
  registrations in the order they were made. Registering a method and path that is
  already registered panics, and a panic ends the construction: every later
  registration leaves the panic in place.
\<close>

type_synonym route = "string \<times> string \<times> Handle"

type_synonym Router = "route list"

datatype panic = AlreadyRegistered string

definition route_key :: "route \<Rightarrow> string \<times> string" where
  "route_key rt = (fst rt, fst (snd rt))"

definition New :: "panic + Router" where
  "New = Inr []"

fun Router_Handle :: "string \<Rightarrow> string \<Rightarrow> Handle \<Rightarrow> panic + Router \<Rightarrow> panic + Router" where
  "Router_Handle method path handle (Inl e) = Inl e"
| "Router_Handle method path handle (Inr r) =
     (if (method, path) \<in> set (map route_key r) then Inl (AlreadyRegistered path)
      else Inr (r @ [(method, path, handle)]))"

definition GET :: "string \<Rightarrow> Handle \<Rightarrow> panic + Router \<Rightarrow> panic + Router" where
  "GET path handle r = Router_Handle ''GET'' path handle r"

text \<open>
  Modelled from the spec: dispatch is the router's own, outside the source. By section
  4.1 a path pattern may contain named placeholders, the router passes their values to
  the handler as named string parameters, an incoming (method, path) goes to the
  matching handler, and the answer is not-found when nothing matches. Matching works on
  the segments between slashes. A pattern segment that starts with a colon is a
  placeholder: it matches any non-empty segment and binds it to the placeholder's name;
  any other pattern segment matches only itself. The parameters are returned in the
  order of the placeholders, and the first registration that matches wins.
\<close>

type_synonym Params = "(string \<times> string) list"

fun splitPath :: "string \<Rightarrow> string list" where
  "splitPath [] = [[]]"
| "splitPath (c # cs) =
     (if c = CHR ''/'' then [] # splitPath cs
      else (case splitPath cs of [] \<Rightarrow> [[c]] | s # ss \<Rightarrow> (c # s) # ss))"

definition isParam :: "string \<Rightarrow> bool" where
  "isParam seg = (case seg of [] \<Rightarrow> False | c # name \<Rightarrow> c = CHR '':'')"

fun matchSegs :: "string list \<Rightarrow> string list \<Rightarrow> Params option" where
  "matchSegs [] [] = Some []"
| "matchSegs (p # ps) (s # ss) =
     (if isParam p
      then (if s = [] then None
            else (case matchSegs ps ss of None \<Rightarrow> None | Some params \<Rightarrow> Some ((tl p, s) # params)))
      else if p = s then matchSegs ps ss else None)"
| "matchSegs [] (s # ss) = None"
| "matchSegs (p # ps) [] = None"

definition matchPath :: "string \<Rightarrow> string \<Rightarrow> Params option" where
  "matchPath pattern path = matchSegs (splitPath pattern) (splitPath path)"

fun Lookup :: "Router \<Rightarrow> string \<Rightarrow> string \<Rightarrow> (Handle \<times> Params) option" where
  "Lookup [] method path = None"
| "Lookup ((m, pattern, handle) # r) method path =
     (if m = method
      then (case matchPath pattern path of
              Some params \<Rightarrow> Some (handle, params)
            | None \<Rightarrow> Lookup r method path)
      else Lookup r method path)"

datatype response = Dispatched Handle Params | NotFound | NoRouter panic

definition ServeHTTP :: "panic + Router \<Rightarrow> string \<Rightarrow> string \<Rightarrow> response" where
  "ServeHTTP r method path =
     (case r of
        Inl e \<Rightarrow> NoRouter e
      | Inr routes \<Rightarrow>
          (case Lookup routes method path of
             Some (handle, params) \<Rightarrow> Dispatched handle params
           | None \<Rightarrow> NotFound))"

subsection \<open>Building the router\<close>

definition VERSION :: string where
  "VERSION = ''1.11.2''"

text \<open>
  Modelled from the spec: \<^verbatim>\<open>endpoints.ServerConfig\<close> is declared outside the source.
  Its fields are those section 6 of the specification lists, which are the ones the
  source reads.
\<close>

record ServerConfig =
  ModulesEnabled :: "string list"
  AllowFrom :: "string list"
  EnableTLS :: bool
  Crt :: string
  Key :: string

text \<open>
  \<^verbatim>\<open>makeRouter\<close>: one guarded block per module, in the order of the source. The
  \<^verbatim>\<open>status\<close> and \<^verbatim>\<open>route_net\<close> blocks register two routes each.
\<close>

definition makeRouter :: "ServerConfig \<Rightarrow> panic + Router" where
  "makeRouter config =
    (let whitelist = ModulesEnabled config;
         r = New;
         r = (if isModuleEnabled ''status'' whitelist
              then GET ''/status'' (Endpoint Status) (GET ''/version'' (Version VERSION) r)
              else r);
         r = (if isModuleEnabled ''protocols'' whitelist
              then GET ''/protocols'' (Endpoint Protocols) r else r);
         r = (if isModuleEnabled ''protocols_bgp'' whitelist
              then GET ''/protocols/bgp'' (Endpoint Bgp) r else r);
         r = (if isModuleEnabled ''symbols'' whitelist
              then GET ''/symbols'' (Endpoint Symbols) r else r);
         r = (if isModuleEnabled ''symbols_tables'' whitelist
              then GET ''/symbols/tables'' (Endpoint SymbolTables) r else r);
         r = (if isModuleEnabled ''symbols_protocols'' whitelist
              then GET ''/symbols/protocols'' (Endpoint SymbolProtocols) r else r);
         r = (if isModuleEnabled ''routes_protocol'' whitelist
              then GET ''/routes/protocol/:protocol'' (Endpoint ProtoRoutes) r else r);
         r = (if isModuleEnabled ''routes_table'' whitelist
              then GET ''/routes/table/:table'' (Endpoint TableRoutes) r else r);
         r = (if isModuleEnabled ''routes_count_protocol'' whitelist
              then GET ''/routes/count/protocol/:protocol'' (Endpoint ProtoCount) r else r);
         r = (if isModuleEnabled ''routes_count_table'' whitelist
              then GET ''/routes/count/table/:table'' (Endpoint TableCount) r else r);
         r = (if isModuleEnabled ''routes_filtered'' whitelist
              then GET ''/routes/filtered/:protocol'' (Endpoint RoutesFiltered) r else r);
         r = (if isModuleEnabled ''routes_noexport'' whitelist
              then GET ''/routes/noexport/:protocol'' (Endpoint RoutesNoExport) r else r);
         r = (if isModuleEnabled ''routes_prefixed'' whitelist
              then GET ''/routes/prefix'' (Endpoint RoutesPrefixed) r else r);
         r = (if isModuleEnabled ''route_net'' whitelist
              then GET ''/route/net/:net/table/:table'' (Endpoint RouteNetTable)
                     (GET ''/route/net/:net'' (Endpoint RouteNet) r)
              else r);
         r = (if isModuleEnabled ''routes_peer'' whitelist
              then GET ''/routes/peer'' (Endpoint RoutesPeer) r else r);
         r = (if isModuleEnabled ''routes_dump'' whitelist
              then GET ''/routes/dump'' (Endpoint RoutesDump) r else r)
     in r)"

text \<open>
  The routes table of section 4.1 of the specification, module by module, each row with
  the handler the source registers for it.
\<close>

definition routes_table :: "(string \<times> route) list" where
  "routes_table =
    [(''status'', ''GET'', ''/version'', Version VERSION),
     (''status'', ''GET'', ''/status'', Endpoint Status),
     (''protocols'', ''GET'', ''/protocols'', Endpoint Protocols),
     (''protocols_bgp'', ''GET'', ''/protocols/bgp'', Endpoint Bgp),
     (''symbols'', ''GET'', ''/symbols'', Endpoint Symbols),
     (''symbols_tables'', ''GET'', ''/symbols/tables'', Endpoint SymbolTables),
     (''symbols_protocols'', ''GET'', ''/symbols/protocols'', Endpoint SymbolProtocols),
     (''routes_protocol'', ''GET'', ''/routes/protocol/:protocol'', Endpoint ProtoRoutes),
     (''routes_table'', ''GET'', ''/routes/table/:table'', Endpoint TableRoutes),
     (''routes_count_protocol'', ''GET'', ''/routes/count/protocol/:protocol'', Endpoint ProtoCount),
     (''routes_count_table'', ''GET'', ''/routes/count/table/:table'', Endpoint TableCount),
     (''routes_filtered'', ''GET'', ''/routes/filtered/:protocol'', Endpoint RoutesFiltered),
     (''routes_noexport'', ''GET'', ''/routes/noexport/:protocol'', Endpoint RoutesNoExport),
     (''routes_prefixed'', ''GET'', ''/routes/prefix'', Endpoint RoutesPrefixed),
     (''route_net'', ''GET'', ''/route/net/:net'', Endpoint RouteNet),
     (''route_net'', ''GET'', ''/route/net/:net/table/:table'', Endpoint RouteNetTable),
     (''routes_peer'', ''GET'', ''/routes/peer'', Endpoint RoutesPeer),
     (''routes_dump'', ''GET'', ''/routes/dump'', Endpoint RoutesDump)]"

definition known_modules :: "string list" where
  "known_modules =
    [''status'', ''protocols'', ''protocols_bgp'', ''symbols'', ''symbols_tables'',
     ''symbols_protocols'', ''routes_protocol'', ''routes_table'', ''routes_count_protocol'',
     ''routes_count_table'', ''routes_filtered'', ''routes_noexport'', ''routes_prefixed'',
     ''route_net'', ''routes_peer'', ''routes_dump'']"

text \<open>
  The specification's reading of the router: the rows of a table whose module is in the
  whitelist, in table order.
\<close>

definition select_routes :: "string list \<Rightarrow> (string \<times> route) list \<Rightarrow> Router" where
  "select_routes whitelist tbl = map snd (filter (\<lambda>row. fst row \<in> set whitelist) tbl)"

text \<open>
  Two patterns overlap when some path could match both; a table is exclusive when no
  two different rows with the same method have overlapping patterns.
\<close>

fun overlap :: "string list \<Rightarrow> string list \<Rightarrow> bool" where
  "overlap [] [] = True"
| "overlap (a # as) (b # bs) = ((isParam a \<or> isParam b \<or> a = b) \<and> overlap as bs)"
| "overlap [] (b # bs) = False"
| "overlap (a # as) [] = False"

definition exclusive :: "(string \<times> route) list \<Rightarrow> bool" where
  "exclusive tbl = list_all (\<lambda>row. list_all (\<lambda>row'.
       row' = row \<or> fst (snd row') \<noteq> fst (snd row)
        \<or> \<not> overlap (splitPath (fst (snd (snd row')))) (splitPath (fst (snd (snd row))))) tbl) tbl"

subsection \<open>The access log writer\<close>

text \<open>
  \<^verbatim>\<open>MyLogger\<close> wraps a \<^verbatim>\<open>log.Logger\<close> of the standard library. A logger made by \<^verbatim>\<open>log.New(out, prefix, flag)\<close>
  is its prefix and flags; what its output does with a buffer is a parameter, the error
  the output's \<^verbatim>\<open>Write\<close> returns for it (\<open>None\<close> for no error). The log state records
  every call of \<^verbatim>\<open>Print\<close> with its argument, and every buffer handed to the output with
  the error returned. \<^verbatim>\<open>Print\<close> puts the prefix in front of the text, ends the line when
  the text does not end in a newline, and drops the output's error.
\<close>

record Logger =
  prefix :: string
  flag :: int

record MyLogger =
  logger :: Logger

type_synonym writer = "string \<Rightarrow> string option"

record log_state =
  Print_calls :: "(Logger \<times> string) list"
  writes :: "(string \<times> string option) list"

definition Logger_Print :: "writer \<Rightarrow> Logger \<Rightarrow> string \<Rightarrow> log_state \<Rightarrow> log_state" where
  "Logger_Print out l s st =
     (let line = prefix l @ s @ (if length s = 0 \<or> last s \<noteq> CHR 0x0A then [CHR 0x0A] else [])
      in st\<lparr>Print_calls := Print_calls st @ [(l, s)],
            writes := writes st @ [(line, out line)]\<rparr>)"

text \<open>
  \<^verbatim>\<open>Write\<close>: the conversion \<^verbatim>\<open>string(p)\<close> keeps the bytes, so the argument of \<^verbatim>\<open>Print\<close>
  is \<open>p\<close> itself. The result is the pair of named results \<^verbatim>\<open>(n, err)\<close>.
\<close>

definition MyLogger_Write ::
  "writer \<Rightarrow> MyLogger \<Rightarrow> string \<Rightarrow> log_state \<Rightarrow> (int \<times> string option) \<times> log_state" where
  "MyLogger_Write out m p st =
     (let st' = Logger_Print out (logger m) p st
      in ((int (length p), None), st'))"

subsection \<open>Startup\<close>

text \<open>
  Modelled from the spec: the configuration types are declared outside the source.
  \<^verbatim>\<open>bird.BirdConfig\<close> is the backend configuration of section 6 (command, listen
  address, cache time to live) under the field names the source reads; the parser
  section has the one field the source reads; the status and rate limit sections are
  only passed on and stay type parameters.
\<close>

record BirdConfig =
  Listen :: string
  BirdCmd :: string
  CacheTtl :: int

record ParserConfig =
  PerPeerTables :: bool

record ('s, 'r) Config =
  Server :: ServerConfig
  Bird :: BirdConfig
  Bird6 :: BirdConfig
  Status_conf :: 's
  Ratelimit :: 'r
  Parser :: ParserConfig

text \<open>The values of the three command line flags after \<^verbatim>\<open>flag.Parse()\<close>, and their defaults.\<close>

record flags =
  bird6 :: bool
  workerPoolSize :: int
  configfile :: string

definition default_flags :: flags where
  "default_flags = \<lparr>bird6 = False, workerPoolSize = 8,
     configfile = ''etc/birdwatcher/birdwatcher.conf''\<rparr>"

datatype http_handler = LoggingHandler MyLogger Router

text \<open>
  What \<^verbatim>\<open>main\<close> does is recorded as a trace of events, in program order: each assignment
  to a package level variable of a collaborator, each call that leaves the component,
  and each log call. \<open>Check_TLS ok\<close> records that control passed one of the two checks of
  the TLS material, and whether the check let it through.
\<close>

datatype logarg = Str string | Num int | Flag bool | Err string

datatype ('s, 'r) event =
    Set_bird_WorkerPoolSize int
  | Call_LoadConfigs "string list"
  | Check_TLS bool
  | Set_endpoints_VERSION string
  | Call_bird_InstallRateLimitReset
  | Set_bird_IPVersion string
  | Log_Println "logarg list"
  | Set_bird_ClientConf BirdConfig
  | Set_bird_StatusConf 's
  | Set_bird_RateLimitConf_Conf 'r
  | Set_bird_ParserConf ParserConfig
  | Set_endpoints_Conf ServerConfig
  | Call_log_SetPrefix string
  | Call_ListenAndServe string http_handler
  | Call_ListenAndServeTLS string string string http_handler
  | Log_Fatal "logarg list"
  | Log_Fatalln "logarg list"

text \<open>
  How a run ends: \<^verbatim>\<open>log.Fatal\<close> and \<^verbatim>\<open>log.Fatalln\<close> exit with status 1 after printing; a
  listener that never returns leaves the process serving; a panic of the router
  construction ends \<^verbatim>\<open>main\<close>.
\<close>

datatype outcome = Exited int | Serving | Panic panic

text \<open>
  The surroundings of \<^verbatim>\<open>main\<close>: \<^verbatim>\<open>LoadConfigs\<close> (a function of this repository outside the
  source, taken as a parameter) returns an error or the configuration; \<open>time_Now\<close> is the
  formatted current time; a listener returns an error, or never returns (\<open>None\<close>).
\<close>

record ('s, 'r) env =
  LoadConfigs :: "string list \<Rightarrow> string + ('s, 'r) Config"
  time_Now :: string
  ListenAndServe :: "string \<Rightarrow> http_handler \<Rightarrow> string option"
  ListenAndServeTLS :: "string \<Rightarrow> string \<Rightarrow> string \<Rightarrow> http_handler \<Rightarrow> string option"

fun Join :: "string list \<Rightarrow> string \<Rightarrow> string" where
  "Join [] sep = []"
| "Join [x] sep = x"
| "Join (x # y # ys) sep = x @ sep @ Join (y # ys) sep"

definition PrintServiceInfo :: "('s, 'r) Config \<Rightarrow> BirdConfig \<Rightarrow> ('s, 'r) event list" where
  "PrintServiceInfo conf birdConf =
     [Log_Println [Str ''Starting Birdwatcher''],
      Log_Println [Str ''            Using:'', Str (BirdCmd birdConf)],
      Log_Println [Str ''           Listen:'', Str (Listen birdConf)],
      Log_Println [Str ''        Cache TTL:'', Num (CacheTtl birdConf)]]
     @ (if length (AllowFrom (Server conf)) = 0
        then [Log_Println [Str ''        AllowFrom: ALL'']]
        else [Log_Println [Str ''        AllowFrom:'', Str (Join (AllowFrom (Server conf)) '', '')]])
     @ [Log_Println [Str ''   ModulesEnabled:'']]
     @ map (\<lambda>m. Log_Println [Str ''       -'', Str m]) (ModulesEnabled (Server conf))
     @ [Log_Println [Str ''   Per Peer Tables:'', Flag (PerPeerTables (Parser conf))]]"

text \<open>
  \<^verbatim>\<open>log.Fatal(http.ListenAndServe(...))\<close>: the call is made; when it returns, its error is
  logged and the process exits.
\<close>

definition Fatal_of_listener ::
  "('s, 'r) event list \<Rightarrow> ('s, 'r) event \<Rightarrow> string option \<Rightarrow> ('s, 'r) event list \<times> outcome" where
  "Fatal_of_listener t call returned =
     (case returned of
        None \<Rightarrow> (t @ [call], Serving)
      | Some err \<Rightarrow> (t @ [call, Log_Fatal [Err err]], Exited 1))"

text \<open>
  \<^verbatim>\<open>main\<close>. A fatal log call does not return, so the statements after it are the other
  branch. The first check of the TLS material, an \<^verbatim>\<open>if\<close> inside an \<^verbatim>\<open>if\<close> with nothing
  else in the outer one, is one condition here.
\<close>

definition main :: "('s, 'r) env \<Rightarrow> flags \<Rightarrow> ('s, 'r) event list \<times> outcome" where
  "main env fl =
    (let t = [Set_bird_WorkerPoolSize (workerPoolSize fl), Call_LoadConfigs [configfile fl]]
     in case LoadConfigs env [configfile fl] of
          Inl err \<Rightarrow>
            (t @ [Log_Fatal [Str ''Loading birdwatcher configuration failed:'', Err err]], Exited 1)
        | Inr conf \<Rightarrow>
            if EnableTLS (Server conf)
               \<and> (length (Crt (Server conf)) = 0 \<or> length (Key (Server conf)) = 0)
            then (t @ [Check_TLS False,
                       Log_Fatalln [Str (''You have enabled TLS support. Please specify ''
                         @ [CHR 0x27] @ ''crt'' @ [CHR 0x27] @ '' and '' @ [CHR 0x27] @ ''key''
                         @ [CHR 0x27] @ '' in birdwatcher config file.'')]], Exited 1)
            else
              (let t = t @ [Check_TLS True, Set_endpoints_VERSION VERSION,
                            Call_bird_InstallRateLimitReset];
                   birdConf = (if bird6 fl then Bird6 conf else Bird conf);
                   t = (if bird6 fl then t @ [Set_bird_IPVersion ''6''] else t);
                   t = t @ PrintServiceInfo conf birdConf;
                   t = t @ [Set_bird_ClientConf birdConf,
                            Set_bird_StatusConf (Status_conf conf),
                            Set_bird_RateLimitConf_Conf (Ratelimit conf),
                            Set_bird_ParserConf (Parser conf),
                            Set_endpoints_Conf (Server conf)]
               in case makeRouter (Server conf) of
                    Inl e \<Rightarrow> (t, Panic e)
                  | Inr r \<Rightarrow>
                      (let ts = time_Now env;
                           t = t @ [Call_log_SetPrefix ts];
                           myquerylog = \<lparr>prefix = ts @ '' '' @ ''QUERY'' @ '': '', flag = 0\<rparr>;
                           mylogger = \<lparr>logger = myquerylog\<rparr>
                       in if EnableTLS (Server conf)
                          then (if length (Crt (Server conf)) = 0 \<or> length (Key (Server conf)) = 0
                                then (t @ [Check_TLS False,
                                           Log_Fatalln [Str ''You have enabled TLS support but not specified both a .crt and a .key file in the config.'']],
                                      Exited 1)
                                else Fatal_of_listener (t @ [Check_TLS True])
                                       (Call_ListenAndServeTLS (Listen birdConf) (Crt (Server conf))
                                          (Key (Server conf)) (LoggingHandler mylogger r))
                                       (ListenAndServeTLS env (Listen birdConf) (Crt (Server conf))
                                          (Key (Server conf)) (LoggingHandler mylogger r)))
                          else Fatal_of_listener (t @ [Check_TLS True])
                                 (Call_ListenAndServe (Listen birdConf) (LoggingHandler mylogger r))
                                 (ListenAndServe env (Listen birdConf) (LoggingHandler mylogger r)))))"

text \<open>
  The package level variables \<^verbatim>\<open>main\<close> assigns, and the effect of a trace on them.
\<close>

record ('s, 'r) globals =
  bird_WorkerPoolSize :: int
  bird_IPVersion :: string
  bird_ClientConf :: BirdConfig
  bird_StatusConf :: 's
  bird_RateLimitConf_Conf :: 'r
  bird_ParserConf :: ParserConfig
  endpoints_VERSION :: string
  endpoints_Conf :: ServerConfig

fun apply_event :: "('s, 'r) globals \<Rightarrow> ('s, 'r) event \<Rightarrow> ('s, 'r) globals" where
  "apply_event g (Set_bird_WorkerPoolSize n) = g\<lparr>bird_WorkerPoolSize := n\<rparr>"
| "apply_event g (Set_bird_IPVersion v) = g\<lparr>bird_IPVersion := v\<rparr>"
| "apply_event g (Set_bird_ClientConf c) = g\<lparr>bird_ClientConf := c\<rparr>"
| "apply_event g (Set_bird_StatusConf c) = g\<lparr>bird_StatusConf := c\<rparr>"
| "apply_event g (Set_bird_RateLimitConf_Conf c) = g\<lparr>bird_RateLimitConf_Conf := c\<rparr>"
| "apply_event g (Set_bird_ParserConf c) = g\<lparr>bird_ParserConf := c\<rparr>"
| "apply_event g (Set_endpoints_VERSION v) = g\<lparr>endpoints_VERSION := v\<rparr>"
| "apply_event g (Set_endpoints_Conf c) = g\<lparr>endpoints_Conf := c\<rparr>"
| "apply_event g _ = g"

definition replay :: "('s, 'r) event list \<Rightarrow> ('s, 'r) globals \<Rightarrow> ('s, 'r) globals" where
  "replay t g = foldl apply_event g t"

text \<open>
  Observations of a trace, each in trace order: the results of the checks of the TLS
  material, the listen addresses of the calls that bind a listener, the values assigned
  to \<^verbatim>\<open>bird.IPVersion\<close>, and the values assigned to \<^verbatim>\<open>bird.ClientConf\<close>.
\<close>

definition checks :: "('s, 'r) event list \<Rightarrow> bool list" where
  "checks t = concat (map (\<lambda>e. case e of Check_TLS ok \<Rightarrow> [ok] | _ \<Rightarrow> []) t)"

definition bind_addrs :: "('s, 'r) event list \<Rightarrow> string list" where
  "bind_addrs t = concat (map (\<lambda>e. case e of
       Call_ListenAndServe addr h \<Rightarrow> [addr]
     | Call_ListenAndServeTLS addr crt key h \<Rightarrow> [addr]
     | _ \<Rightarrow> []) t)"

definition IPVersion_writes :: "('s, 'r) event list \<Rightarrow> string list" where
  "IPVersion_writes t = concat (map (\<lambda>e. case e of Set_bird_IPVersion v \<Rightarrow> [v] | _ \<Rightarrow> []) t)"

definition ClientConf_writes :: "('s, 'r) event list \<Rightarrow> BirdConfig list" where
  "ClientConf_writes t = concat (map (\<lambda>e. case e of Set_bird_ClientConf c \<Rightarrow> [c] | _ \<Rightarrow> []) t)"

text \<open>
  The condition of both checks: TLS is enabled and the certificate path or the key path
  is empty.
\<close>

definition tls_material_missing :: "ServerConfig \<Rightarrow> bool" where
  "tls_material_missing s = (EnableTLS s \<and> (length (Crt s) = 0 \<or> length (Key s) = 0))"

text \<open>A configuration and surroundings to run \<^verbatim>\<open>main\<close> on.\<close>

definition example_conf :: "bool \<Rightarrow> string \<Rightarrow> string \<Rightarrow> (unit, unit) Config" where
  "example_conf tls crt key =
     \<lparr>Server = \<lparr>ModulesEnabled = [''status'', ''routes_peer''], AllowFrom = [],
                 EnableTLS = tls, Crt = crt, Key = key\<rparr>,
      Bird = \<lparr>Listen = ''0.0.0.0:29184'', BirdCmd = ''birdc'', CacheTtl = 5\<rparr>,
      Bird6 = \<lparr>Listen = ''0.0.0.0:29186'', BirdCmd = ''birdc6'', CacheTtl = 5\<rparr>,
      Status_conf = (), Ratelimit = (), Parser = \<lparr>PerPeerTables = False\<rparr>\<rparr>"

definition example_env :: "(unit, unit) Config \<Rightarrow> (unit, unit) env" where
  "example_env conf =
     \<lparr>LoadConfigs = (\<lambda>files. Inr conf),
      time_Now = ''2026/10/31 12:00:00'',
      ListenAndServe = (\<lambda>addr h. None),
      ListenAndServeTLS = (\<lambda>addr crt key h. Some ''listen tcp: address already in use'')\<rparr>"

definition example_globals :: "(unit, unit) globals" where
  "example_globals =
     \<lparr>bird_WorkerPoolSize = 8, bird_IPVersion = ''4'',
      bird_ClientConf = \<lparr>Listen = [], BirdCmd = [], CacheTtl = 0\<rparr>,
      bird_StatusConf = (), bird_RateLimitConf_Conf = (),
      bird_ParserConf = \<lparr>PerPeerTables = False\<rparr>,
      endpoints_VERSION = [],
      endpoints_Conf = \<lparr>ModulesEnabled = [], AllowFrom = [], EnableTLS = False, Crt = [], Key = []\<rparr>\<rparr>"

subsection \<open>Properties of the whitelist scan\<close>

lemma isModuleEnabled_iff: "isModuleEnabled module modulesEnabled \<longleftrightarrow> module \<in> set modulesEnabled"
  by (induction modulesEnabled) auto

text \<open>
  Claim C4. \<^verbatim>\<open>isModuleEnabled(module, whitelist)\<close> is true exactly when the string
  \<^verbatim>\<open>module\<close> itself is an element of the whitelist: some entry at some index is equal
  to it byte for byte. The entry \<^verbatim>\<open>"Status"\<close> does not enable \<^verbatim>\<open>"status"\<close>, a proper
  prefix or extension of the name does not enable it, and a whitelist none of whose
  entries equals the module never enables it.
\<close>

theorem isModuleEnabled_exact:
  "(isModuleEnabled module whitelist \<longleftrightarrow> (\<exists>i < length whitelist. whitelist ! i = module))
   \<and> \<not> isModuleEnabled ''status'' [''Status'']
   \<and> \<not> isModuleEnabled ''status'' [''STATUS'', ''stat'', ''status '', ''statuses'']
   \<and> ((\<forall>e \<in> set whitelist. e \<noteq> module) \<longrightarrow> \<not> isModuleEnabled module whitelist)"
proof -
  have "isModuleEnabled module whitelist \<longleftrightarrow> (\<exists>i < length whitelist. whitelist ! i = module)"
    by (simp add: isModuleEnabled_iff in_set_conv_nth)
  moreover have "\<not> isModuleEnabled ''status'' [''Status'']"
    by simp
  moreover have "\<not> isModuleEnabled ''status'' [''STATUS'', ''stat'', ''status '', ''statuses'']"
    by simp
  moreover have "(\<forall>e \<in> set whitelist. e \<noteq> module) \<longrightarrow> \<not> isModuleEnabled module whitelist"
    by (auto simp: isModuleEnabled_iff)
  ultimately show ?thesis by blast
qed

theorem isModuleEnabled_exact_witness:
  "isModuleEnabled ''routes_peer'' [''status'', ''routes_peer'']
   \<and> (\<exists>i < length [''status'', ''routes_peer'']. [''status'', ''routes_peer''] ! i = ''routes_peer'')
   \<and> ''Protocols'' \<noteq> ''protocols'' \<and> ''status'' \<noteq> ''protocols''
   \<and> \<not> isModuleEnabled ''protocols'' [''Protocols'', ''status'']"
proof -
  have a: "isModuleEnabled ''routes_peer'' [''status'', ''routes_peer'']"
    by simp
  have b: "\<forall>e \<in> set [''Protocols'', ''status'']. e \<noteq> ''protocols''"
    by simp
  from isModuleEnabled_exact [of "''routes_peer''" "[''status'', ''routes_peer'']"] a
  have c: "\<exists>i < length [''status'', ''routes_peer'']. [''status'', ''routes_peer''] ! i = ''routes_peer''"
    by blast
  from isModuleEnabled_exact [of "''protocols''" "[''Protocols'', ''status'']"] b
  have d: "\<not> isModuleEnabled ''protocols'' [''Protocols'', ''status'']"
    by blast
  from a c d show ?thesis by simp
qed

subsection \<open>The router built by makeRouter\<close>

lemma Let_Inr: "Let (Inr x) f = f (Inr x)"
  by simp

lemma select_routes_snoc:
  "select_routes wl (pre @ [(mname, rt)]) = select_routes wl pre @ (if mname \<in> set wl then [rt] else [])"
  by (simp add: select_routes_def)

lemma keys_select_routes: "route_key ` set (select_routes wl pre) \<subseteq> route_key ` snd ` set pre"
  by (auto simp: select_routes_def)

lemma GET_fresh:
  assumes "(''GET'', path) \<notin> route_key ` snd ` set pre"
  shows "GET path handle (Inr (select_routes wl pre)) = Inr (select_routes wl pre @ [(''GET'', path, handle)])"
proof -
  have "(''GET'', path) \<notin> route_key ` set (select_routes wl pre)"
    using assms keys_select_routes by blast
  then show ?thesis
    by (simp add: GET_def)
qed

lemma step_one:
  assumes "(''GET'', path) \<notin> route_key ` snd ` set pre"
  shows "(if isModuleEnabled mname wl then GET path handle (Inr (select_routes wl pre))
          else Inr (select_routes wl pre))
         = Inr (select_routes wl (pre @ [(mname, ''GET'', path, handle)]))"
  using GET_fresh [OF assms] by (simp add: select_routes_snoc isModuleEnabled_iff)

lemma step_two:
  assumes "(''GET'', path1) \<notin> route_key ` snd ` set pre"
    and "(''GET'', path2) \<notin> route_key ` snd ` set pre" and "path1 \<noteq> path2"
  shows "(if isModuleEnabled mname wl
          then GET path2 handle2 (GET path1 handle1 (Inr (select_routes wl pre)))
          else Inr (select_routes wl pre))
         = Inr (select_routes wl (pre @ [(mname, ''GET'', path1, handle1), (mname, ''GET'', path2, handle2)]))"
proof (cases "isModuleEnabled mname wl")
  case True
  then have m: "mname \<in> set wl" by (simp add: isModuleEnabled_iff)
  let ?pre1 = "pre @ [(mname, ''GET'', path1, handle1)]"
  have e: "select_routes wl ?pre1 = select_routes wl pre @ [(''GET'', path1, handle1)]"
    using m by (simp add: select_routes_def)
  have f: "(''GET'', path2) \<notin> route_key ` snd ` set ?pre1"
    using assms by (auto simp: route_key_def)
  have "GET path1 handle1 (Inr (select_routes wl pre)) = Inr (select_routes wl ?pre1)"
    using GET_fresh [OF assms(1), of handle1 wl] e by simp
  moreover have "GET path2 handle2 (Inr (select_routes wl ?pre1))
      = Inr (select_routes wl ?pre1 @ [(''GET'', path2, handle2)])"
    by (rule GET_fresh [OF f])
  moreover have "select_routes wl ?pre1 @ [(''GET'', path2, handle2)]
      = select_routes wl (pre @ [(mname, ''GET'', path1, handle1), (mname, ''GET'', path2, handle2)])"
    using m by (simp add: select_routes_def)
  ultimately show ?thesis using True by simp
next
  case False
  then show ?thesis
    by (simp add: select_routes_def isModuleEnabled_iff)
qed

lemma step_start: "(Inr [] :: panic + Router) = Inr (select_routes wl [])"
  by (simp add: select_routes_def)

text \<open>
  The construction never panics, and the router it returns holds exactly the rows of the
  routes table whose module is in the whitelist. The proof follows the source block by
  block.
\<close>

lemma makeRouter_eq: "makeRouter config = Inr (select_routes (ModulesEnabled config) routes_table)"
  unfolding makeRouter_def New_def
  apply (subst Let_def)
  apply (subst step_start [of "ModulesEnabled config"])
  apply (subst Let_Inr, subst step_two, simp add: route_key_def, simp add: route_key_def, simp)
  apply (subst Let_Inr, subst step_one, simp add: route_key_def)
  apply (subst Let_Inr, subst step_one, simp add: route_key_def)
  apply (subst Let_Inr, subst step_one, simp add: route_key_def)
  apply (subst Let_Inr, subst step_one, simp add: route_key_def)
  apply (subst Let_Inr, subst step_one, simp add: route_key_def)
  apply (subst Let_Inr, subst step_one, simp add: route_key_def)
  apply (subst Let_Inr, subst step_one, simp add: route_key_def)
  apply (subst Let_Inr, subst step_one, simp add: route_key_def)
  apply (subst Let_Inr, subst step_one, simp add: route_key_def)
  apply (subst Let_Inr, subst step_one, simp add: route_key_def)
  apply (subst Let_Inr, subst step_one, simp add: route_key_def)
  apply (subst Let_Inr, subst step_one, simp add: route_key_def)
  apply (subst Let_Inr, subst step_two, simp add: route_key_def, simp add: route_key_def, simp)
  apply (subst Let_Inr, subst step_one, simp add: route_key_def)
  apply (subst Let_Inr, subst step_one, simp add: route_key_def)
  apply (subst Let_Inr)
  apply (simp add: routes_table_def)
  done


lemma makeRouter_never_panics: "\<exists>r. makeRouter config = Inr r"
  by (simp add: makeRouter_eq)

lemma known_modules_table: "set (map fst routes_table) = set known_modules"
  by (simp add: routes_table_def known_modules_def insert_commute)

lemma select_routes_cong:
  "(\<And>row. row \<in> set tbl \<Longrightarrow> (fst row \<in> set wl) = (fst row \<in> set wl'))
   \<Longrightarrow> select_routes wl tbl = select_routes wl' tbl"
  unfolding select_routes_def by (simp cong: filter_cong)

lemma routes_table_keys_distinct: "distinct (map (route_key \<circ> snd) routes_table)"
  by (simp add: routes_table_def route_key_def)

lemma select_routes_distinct:
  "distinct (map (route_key \<circ> snd) tbl) \<Longrightarrow> distinct (map route_key (select_routes wl tbl))"
  unfolding select_routes_def by (simp add: distinct_map_filter)

subsection \<open>Dispatch\<close>

lemma matchSegs_overlap:
  "matchSegs p q = Some x \<Longrightarrow> matchSegs p' q = Some y \<Longrightarrow> overlap p p'"
proof (induction p q arbitrary: p' x y rule: matchSegs.induct)
  case 1
  then show ?case by (cases p') auto
next
  case (2 p ps s ss)
  then show ?case
    by (cases p') (auto split: if_splits option.splits)
next
  case (3 s ss)
  then show ?case by simp
next
  case (4 p ps)
  then show ?case by simp
qed

lemma routes_table_exclusive: "exclusive routes_table"
  by (simp add: exclusive_def routes_table_def isParam_def)


lemma Lookup_None:
  "(\<And>m p h. (m, p, h) \<in> set r \<Longrightarrow> m = method \<Longrightarrow> matchPath p path = None)
   \<Longrightarrow> Lookup r method path = None"
proof (induction r)
  case Nil
  then show ?case by simp
next
  case (Cons a r)
  obtain m p h where a: "a = (m, p, h)" by (cases a)
  have "Lookup r method path = None"
  proof (rule Cons.IH)
    fix m' p' h'
    assume "(m', p', h') \<in> set r" and "m' = method"
    then show "matchPath p' path = None"
      using Cons.prems [of m' p' h'] by simp
  qed
  moreover have "m = method \<Longrightarrow> matchPath p path = None"
    by (rule Cons.prems [of m p h]) (simp_all add: a)
  ultimately show ?case by (simp add: a)
qed

lemma Lookup_unique:
  assumes "(method, pattern, handle) \<in> set r"
    and "matchPath pattern path = Some params"
    and "\<And>p h. (method, p, h) \<in> set r \<Longrightarrow> matchPath p path \<noteq> None \<Longrightarrow> p = pattern \<and> h = handle"
  shows "Lookup r method path = Some (handle, params)"
  using assms
proof (induction r)
  case Nil
  then show ?case by simp
next
  case (Cons a r)
  obtain m p h where a: "a = (m, p, h)" by (cases a)
  show ?case
  proof (cases "m = method \<and> matchPath p path \<noteq> None")
    case True
    then have "p = pattern \<and> h = handle"
      using Cons.prems(3) [of p h] by (simp add: a)
    then show ?thesis
      using True Cons.prems(2) by (simp add: a)
  next
    case False
    then have "(method, pattern, handle) \<in> set r"
      using Cons.prems(1,2) by (auto simp: a)
    then have "Lookup r method path = Some (handle, params)"
      using Cons.prems(2,3) by (intro Cons.IH) auto
    then show ?thesis
      using False by (auto simp: a)
  qed
qed

lemma exclusive_same_row:
  assumes "exclusive tbl"
    and "(mname, method, pattern, handle) \<in> set tbl" and "matchPath pattern path = Some params"
    and "(mname', method, pattern', handle') \<in> set tbl" and "matchPath pattern' path \<noteq> None"
  shows "mname' = mname \<and> pattern' = pattern \<and> handle' = handle"
proof -
  obtain params' where "matchPath pattern' path = Some params'"
    using assms(5) by blast
  then have "overlap (splitPath pattern') (splitPath pattern)"
    using assms(3) unfolding matchPath_def by (rule matchSegs_overlap)
  moreover have "(mname', method, pattern', handle') = (mname, method, pattern, handle)
      \<or> \<not> overlap (splitPath pattern') (splitPath pattern)"
    using assms(1,2,4) unfolding exclusive_def list_all_iff by fastforce
  ultimately show ?thesis by simp
qed

lemma Lookup_select_routes:
  assumes "exclusive tbl"
    and "(mname, method, pattern, handle) \<in> set tbl" and "matchPath pattern path = Some params"
  shows "Lookup (select_routes wl tbl) method path
         = (if mname \<in> set wl then Some (handle, params) else None)"
proof (cases "mname \<in> set wl")
  case True
  have in_sel: "(method, pattern, handle) \<in> set (select_routes wl tbl)"
    using True assms(2) by (force simp: select_routes_def)
  have "Lookup (select_routes wl tbl) method path = Some (handle, params)"
  proof (rule Lookup_unique [OF in_sel assms(3)])
    fix p h
    assume "(method, p, h) \<in> set (select_routes wl tbl)" and m: "matchPath p path \<noteq> None"
    then obtain mname' where "(mname', method, p, h) \<in> set tbl"
      by (auto simp: select_routes_def)
    then show "p = pattern \<and> h = handle"
      using exclusive_same_row [OF assms(1,2,3) _ m] by blast
  qed
  then show ?thesis using True by simp
next
  case False
  have "Lookup (select_routes wl tbl) method path = None"
  proof (rule Lookup_None)
    fix m p h
    assume "(m, p, h) \<in> set (select_routes wl tbl)" and eq: "m = method"
    then obtain mname' where row: "(mname', method, p, h) \<in> set tbl" and en: "mname' \<in> set wl"
      by (auto simp: select_routes_def)
    show "matchPath p path = None"
    proof (rule ccontr)
      assume "matchPath p path \<noteq> None"
      then have "mname' = mname"
        using exclusive_same_row [OF assms(1,2,3) row] by blast
      then show False using en False by simp
    qed
  qed
  then show ?thesis using False by simp
qed

lemma routes_table_self_match:
  "list_all (\<lambda>(mname, method, pattern, handle). matchPath pattern pattern \<noteq> None) routes_table"
  by (simp add: routes_table_def matchPath_def isParam_def)

text \<open>
  Claim C1. For every whitelist and every row (module, method, path, handler) of the
  routes table, the router built by \<^verbatim>\<open>makeRouter\<close> from a configuration with that
  whitelist answers a request for the row's method and path by dispatching to the row's
  handler when the module is a member of the whitelist, and by not-found when it is not.
  This holds for the row's path taken literally and for every request path that matches
  the row's pattern, with the placeholder values passed as parameters.
\<close>

theorem makeRouter_dispatch:
  assumes "(mname, method, pattern, handle) \<in> set routes_table"
  shows "(\<exists>params. ServeHTTP (makeRouter config) method pattern
            = (if mname \<in> set (ModulesEnabled config) then Dispatched handle params else NotFound))
       \<and> (\<forall>path params. matchPath pattern path = Some params \<longrightarrow>
            ServeHTTP (makeRouter config) method path
            = (if mname \<in> set (ModulesEnabled config) then Dispatched handle params else NotFound))"
proof -
  have general: "ServeHTTP (makeRouter config) method path
      = (if mname \<in> set (ModulesEnabled config) then Dispatched handle params else NotFound)"
    if "matchPath pattern path = Some params" for path params
    using Lookup_select_routes [OF routes_table_exclusive assms that, of "ModulesEnabled config"]
    by (simp add: ServeHTTP_def makeRouter_eq)
  have "matchPath pattern pattern \<noteq> None"
    using routes_table_self_match assms unfolding list_all_iff by fastforce
  then obtain params where "matchPath pattern pattern = Some params"
    by blast
  then have "ServeHTTP (makeRouter config) method pattern
      = (if mname \<in> set (ModulesEnabled config) then Dispatched handle params else NotFound)"
    by (rule general)
  then show ?thesis
    using general by blast
qed

theorem makeRouter_dispatch_witness:
  "ServeHTTP (makeRouter \<lparr>ModulesEnabled = [''status'', ''routes_peer'', ''route_net''],
       AllowFrom = [], EnableTLS = False, Crt = [], Key = []\<rparr>) ''GET'' ''/route/net/10.0.0.0/table/master''
     = Dispatched (Endpoint RouteNetTable) [(''net'', ''10.0.0.0''), (''table'', ''master'')]
   \<and> ServeHTTP (makeRouter \<lparr>ModulesEnabled = [''status'', ''routes_peer''],
       AllowFrom = [], EnableTLS = False, Crt = [], Key = []\<rparr>) ''GET'' ''/route/net/10.0.0.0/table/master''
     = NotFound"
proof -
  have row: "(''route_net'', ''GET'', ''/route/net/:net/table/:table'', Endpoint RouteNetTable) \<in> set routes_table"
    by (simp add: routes_table_def)
  have m: "matchPath ''/route/net/:net/table/:table'' ''/route/net/10.0.0.0/table/master''
      = Some [(''net'', ''10.0.0.0''), (''table'', ''master'')]"
    by (simp add: matchPath_def isParam_def)
  show ?thesis
    using makeRouter_dispatch [OF row, of "\<lparr>ModulesEnabled = [''status'', ''routes_peer'', ''route_net''],
        AllowFrom = [], EnableTLS = False, Crt = [], Key = []\<rparr>"]
      makeRouter_dispatch [OF row, of "\<lparr>ModulesEnabled = [''status'', ''routes_peer''],
        AllowFrom = [], EnableTLS = False, Crt = [], Key = []\<rparr>"] m
    by simp
qed

text \<open>
  Claim C5. Let the whitelists \<open>S\<close> and \<open>S'\<close> both contain the module name \<open>m\<close> and
  agree once every occurrence of \<open>m\<close> is removed, so that \<open>S'\<close> is \<open>S\<close> with \<open>m\<close>
  occurring any other number of times, at any positions. Then \<^verbatim>\<open>makeRouter\<close> builds the
  same router from both, the construction does not panic, and every (method, path) is
  registered exactly once in it.
\<close>

theorem makeRouter_duplicates:
  assumes "m \<in> set S" and "m \<in> set S'" and "removeAll m S' = removeAll m S"
  shows "makeRouter (config\<lparr>ModulesEnabled := S'\<rparr>) = makeRouter (config\<lparr>ModulesEnabled := S\<rparr>)
       \<and> (\<exists>r. makeRouter (config\<lparr>ModulesEnabled := S'\<rparr>) = Inr r
              \<and> distinct (map route_key r) \<and> distinct r)"
proof -
  have "set S' = insert m (set (removeAll m S'))"
    using assms(2) by auto
  also have "\<dots> = insert m (set (removeAll m S))"
    by (simp only: assms(3))
  also have "\<dots> = set S"
    using assms(1) by auto
  finally have eq: "set S' = set S" .
  have same: "select_routes S' routes_table = select_routes S routes_table"
    by (rule select_routes_cong) (simp add: eq)
  have d: "distinct (map route_key (select_routes S' routes_table))"
    by (rule select_routes_distinct [OF routes_table_keys_distinct])
  then have "distinct (select_routes S' routes_table)"
    by (simp add: distinct_map)
  with d same show ?thesis
    by (simp add: makeRouter_eq)
qed

theorem makeRouter_duplicates_witness:
  "makeRouter \<lparr>ModulesEnabled = [''status'', ''protocols'', ''status'', ''status''],
       AllowFrom = [], EnableTLS = False, Crt = [], Key = []\<rparr>
   = makeRouter \<lparr>ModulesEnabled = [''status'', ''protocols''],
       AllowFrom = [], EnableTLS = False, Crt = [], Key = []\<rparr>
   \<and> makeRouter \<lparr>ModulesEnabled = [''status'', ''protocols'', ''status'', ''status''],
       AllowFrom = [], EnableTLS = False, Crt = [], Key = []\<rparr>
   = Inr [(''GET'', ''/version'', Version VERSION), (''GET'', ''/status'', Endpoint Status),
          (''GET'', ''/protocols'', Endpoint Protocols)]"
proof -
  have a: "''status'' \<in> set [''status'', ''protocols'']"
    and b: "''status'' \<in> set [''status'', ''protocols'', ''status'', ''status'']"
    and c: "removeAll ''status'' [''status'', ''protocols'', ''status'', ''status'']
          = removeAll ''status'' [''status'', ''protocols'']"
    by simp_all
  have v: "makeRouter \<lparr>ModulesEnabled = [''status'', ''protocols''],
       AllowFrom = [], EnableTLS = False, Crt = [], Key = []\<rparr>
     = Inr [(''GET'', ''/version'', Version VERSION), (''GET'', ''/status'', Endpoint Status),
          (''GET'', ''/protocols'', Endpoint Protocols)]"
    by (simp add: makeRouter_eq select_routes_def routes_table_def)
  show ?thesis
    using makeRouter_duplicates [OF a b c, where config = "\<lparr>ModulesEnabled = [],
       AllowFrom = [], EnableTLS = False, Crt = [], Key = []\<rparr>"] v
    by simp
qed

text \<open>
  Claim C8. A whitelist entry \<open>u\<close> that is none of the sixteen module names the source
  tests for is inert: with \<open>u\<close> inserted at any position, \<^verbatim>\<open>makeRouter\<close> returns the same
  router as without it, and the construction does not panic. \<^verbatim>\<open>makeRouter\<close> has no
  effect other than the router it returns, so it logs nothing.
\<close>

theorem makeRouter_unknown_module:
  assumes "u \<notin> set known_modules"
  shows "makeRouter (config\<lparr>ModulesEnabled := xs @ u # ys\<rparr>)
           = makeRouter (config\<lparr>ModulesEnabled := xs @ ys\<rparr>)
       \<and> (\<exists>r. makeRouter (config\<lparr>ModulesEnabled := xs @ u # ys\<rparr>) = Inr r)"
proof -
  have "select_routes (xs @ u # ys) routes_table = select_routes (xs @ ys) routes_table"
  proof (rule select_routes_cong)
    fix row
    assume "row \<in> set routes_table"
    then have "fst row \<in> set known_modules"
      using known_modules_table by force
    then have "fst row \<noteq> u"
      using assms by blast
    then show "(fst row \<in> set (xs @ u # ys)) = (fst row \<in> set (xs @ ys))"
      by simp
  qed
  then show ?thesis
    by (simp add: makeRouter_eq)
qed

theorem makeRouter_unknown_module_witness:
  "makeRouter \<lparr>ModulesEnabled = [''status'', ''Status'', ''routes_peer''],
       AllowFrom = [], EnableTLS = False, Crt = [], Key = []\<rparr>
   = makeRouter \<lparr>ModulesEnabled = [''status'', ''routes_peer''],
       AllowFrom = [], EnableTLS = False, Crt = [], Key = []\<rparr>
   \<and> makeRouter \<lparr>ModulesEnabled = [''status'', ''routes_peer''],
       AllowFrom = [], EnableTLS = False, Crt = [], Key = []\<rparr>
   = Inr [(''GET'', ''/version'', Version VERSION), (''GET'', ''/status'', Endpoint Status),
          (''GET'', ''/routes/peer'', Endpoint RoutesPeer)]"
proof -
  have u: "''Status'' \<notin> set known_modules"
    by (simp add: known_modules_def)
  have v: "makeRouter \<lparr>ModulesEnabled = [''status'', ''routes_peer''],
       AllowFrom = [], EnableTLS = False, Crt = [], Key = []\<rparr>
     = Inr [(''GET'', ''/version'', Version VERSION), (''GET'', ''/status'', Endpoint Status),
          (''GET'', ''/routes/peer'', Endpoint RoutesPeer)]"
    by (simp add: makeRouter_eq select_routes_def routes_table_def)
  show ?thesis
    using makeRouter_unknown_module [OF u, where config = "\<lparr>ModulesEnabled = [],
       AllowFrom = [], EnableTLS = False, Crt = [], Key = []\<rparr>" and xs = "[''status'']"
       and ys = "[''routes_peer'']"] v
    by simp
qed

subsection \<open>The access log writer: result and forwarding\<close>

text \<open>
  Claim C3. For every byte sequence \<open>p\<close>, \<^verbatim>\<open>MyLogger.Write(p)\<close> returns the length of \<open>p\<close>
  and no error, whatever the logger's output returns for the line. It calls \<^verbatim>\<open>Print\<close> of
  the wrapped logger exactly once, with the bytes of \<open>p\<close> as they are, and that call
  hands exactly one buffer to the output.
\<close>

theorem MyLogger_Write_result:
  "fst (MyLogger_Write out m p st) = (int (length p), None)
   \<and> Print_calls (snd (MyLogger_Write out m p st)) = Print_calls st @ [(logger m, p)]
   \<and> length (writes (snd (MyLogger_Write out m p st))) = Suc (length (writes st))"
  by (simp add: MyLogger_Write_def Logger_Print_def Let_def)

theorem MyLogger_Write_result_witness:
  "fst (MyLogger_Write (\<lambda>line. Some ''write failed'') \<lparr>logger = \<lparr>prefix = ''QUERY: '', flag = 0\<rparr>\<rparr>
        ''GET /status'' \<lparr>Print_calls = [], writes = []\<rparr>) = (11, None)
   \<and> Print_calls (snd (MyLogger_Write (\<lambda>line. Some ''write failed'')
        \<lparr>logger = \<lparr>prefix = ''QUERY: '', flag = 0\<rparr>\<rparr> ''GET /status'' \<lparr>Print_calls = [], writes = []\<rparr>))
      = [(\<lparr>prefix = ''QUERY: '', flag = 0\<rparr>, ''GET /status'')]"
  using MyLogger_Write_result [of "\<lambda>line. Some ''write failed''"
      "\<lparr>logger = \<lparr>prefix = ''QUERY: '', flag = 0\<rparr>\<rparr>" "''GET /status''" "\<lparr>Print_calls = [], writes = []\<rparr>"]
  by simp

subsection \<open>The startup sequence\<close>

lemma checks_append: "checks (t @ u) = checks t @ checks u"
  by (simp add: checks_def)

lemma bind_addrs_append: "bind_addrs (t @ u) = bind_addrs t @ bind_addrs u"
  by (simp add: bind_addrs_def)

lemma IPVersion_writes_append: "IPVersion_writes (t @ u) = IPVersion_writes t @ IPVersion_writes u"
  by (simp add: IPVersion_writes_def)

lemma ClientConf_writes_append: "ClientConf_writes (t @ u) = ClientConf_writes t @ ClientConf_writes u"
  by (simp add: ClientConf_writes_def)

lemma PrintServiceInfo_only_logs:
  "e \<in> set (PrintServiceInfo conf birdConf) \<Longrightarrow> \<exists>args. e = Log_Println args"
  by (auto simp: PrintServiceInfo_def split: if_splits)

lemma PrintServiceInfo_checks: "checks (PrintServiceInfo conf birdConf) = []"
  using PrintServiceInfo_only_logs [of _ conf birdConf] by (fastforce simp: checks_def)

lemma PrintServiceInfo_bind_addrs: "bind_addrs (PrintServiceInfo conf birdConf) = []"
  using PrintServiceInfo_only_logs [of _ conf birdConf] by (fastforce simp: bind_addrs_def)

lemma PrintServiceInfo_IPVersion_writes: "IPVersion_writes (PrintServiceInfo conf birdConf) = []"
  using PrintServiceInfo_only_logs [of _ conf birdConf] by (fastforce simp: IPVersion_writes_def)

lemma PrintServiceInfo_ClientConf_writes: "ClientConf_writes (PrintServiceInfo conf birdConf) = []"
  using PrintServiceInfo_only_logs [of _ conf birdConf] by (fastforce simp: ClientConf_writes_def)

lemmas PrintServiceInfo_silent =
  PrintServiceInfo_checks PrintServiceInfo_bind_addrs
  PrintServiceInfo_IPVersion_writes PrintServiceInfo_ClientConf_writes

lemma checks_Cons: "checks (e # t) = (case e of Check_TLS ok \<Rightarrow> [ok] | _ \<Rightarrow> []) @ checks t"
  by (simp add: checks_def)

lemma bind_addrs_Cons:
  "bind_addrs (e # t) = (case e of
       Call_ListenAndServe addr h \<Rightarrow> [addr]
     | Call_ListenAndServeTLS addr crt key h \<Rightarrow> [addr]
     | _ \<Rightarrow> []) @ bind_addrs t"
  by (simp add: bind_addrs_def)

lemma IPVersion_writes_Cons:
  "IPVersion_writes (e # t) = (case e of Set_bird_IPVersion v \<Rightarrow> [v] | _ \<Rightarrow> []) @ IPVersion_writes t"
  by (simp add: IPVersion_writes_def)

lemma ClientConf_writes_Cons:
  "ClientConf_writes (e # t) = (case e of Set_bird_ClientConf c \<Rightarrow> [c] | _ \<Rightarrow> []) @ ClientConf_writes t"
  by (simp add: ClientConf_writes_def)

lemma observe_Nil:
  "checks [] = []" "bind_addrs [] = []" "IPVersion_writes [] = []" "ClientConf_writes [] = []"
  by (simp_all add: checks_def bind_addrs_def IPVersion_writes_def ClientConf_writes_def)

lemmas observe_simps =
  checks_append bind_addrs_append IPVersion_writes_append ClientConf_writes_append
  checks_Cons bind_addrs_Cons IPVersion_writes_Cons ClientConf_writes_Cons observe_Nil

lemma replay_append: "replay (t @ u) g = replay u (replay t g)"
  by (simp add: replay_def)

lemma replay_IPVersion:
  "bird_IPVersion (replay t g)
   = (if IPVersion_writes t = [] then bird_IPVersion g else last (IPVersion_writes t))"
proof (induction t rule: rev_induct)
  case Nil
  then show ?case by (simp add: replay_def IPVersion_writes_def)
next
  case (snoc e t)
  show ?case
    by (cases e) (simp_all add: replay_def IPVersion_writes_def snoc.IH [unfolded replay_def IPVersion_writes_def])
qed

lemma replay_ClientConf:
  "bird_ClientConf (replay t g)
   = (if ClientConf_writes t = [] then bird_ClientConf g else last (ClientConf_writes t))"
proof (induction t rule: rev_induct)
  case Nil
  then show ?case by (simp add: replay_def ClientConf_writes_def)
next
  case (snoc e t)
  show ?case
    by (cases e) (simp_all add: replay_def ClientConf_writes_def snoc.IH [unfolded replay_def ClientConf_writes_def])
qed

text \<open>The three ways a run can go, by the result of the load and of the first check.\<close>

lemma main_load_failed:
  assumes "LoadConfigs env [configfile fl] = Inl err"
  shows "main env fl =
    ([Set_bird_WorkerPoolSize (workerPoolSize fl), Call_LoadConfigs [configfile fl],
      Log_Fatal [Str ''Loading birdwatcher configuration failed:'', Err err]], Exited 1)"
  using assms by (simp add: main_def)

lemma main_material_missing:
  assumes "LoadConfigs env [configfile fl] = Inr conf"
    and "tls_material_missing (Server conf)"
  shows "\<exists>msg. main env fl =
    ([Set_bird_WorkerPoolSize (workerPoolSize fl), Call_LoadConfigs [configfile fl],
      Check_TLS False, Log_Fatalln [Str msg]], Exited 1)"
  using assms by (simp add: main_def tls_material_missing_def)

lemma main_started:
  assumes "LoadConfigs env [configfile fl] = Inr conf"
    and "\<not> tls_material_missing (Server conf)"
  shows "\<exists>mid b rest out. main env fl =
      ([Set_bird_WorkerPoolSize (workerPoolSize fl), Call_LoadConfigs [configfile fl], Check_TLS True]
         @ mid @ [Check_TLS True, b] @ rest, out)
    \<and> bind_addrs [b] = [Listen (if bird6 fl then Bird6 conf else Bird conf)]
    \<and> checks mid = [] \<and> checks [b] = [] \<and> checks rest = []
    \<and> bind_addrs mid = [] \<and> bind_addrs rest = []
    \<and> IPVersion_writes mid = (if bird6 fl then [''6''] else [])
    \<and> IPVersion_writes [b] = [] \<and> IPVersion_writes rest = []
    \<and> ClientConf_writes mid = [if bird6 fl then Bird6 conf else Bird conf]
    \<and> ClientConf_writes [b] = [] \<and> ClientConf_writes rest = []
    \<and> (out = Serving \<or> out = Exited 1)"
proof -
  let ?active = "if bird6 fl then Bird6 conf else Bird conf"
  let ?mid = "[Set_endpoints_VERSION VERSION, Call_bird_InstallRateLimitReset]
       @ (if bird6 fl then [Set_bird_IPVersion ''6''] else [])
       @ PrintServiceInfo conf ?active
       @ [Set_bird_ClientConf ?active, Set_bird_StatusConf (Status_conf conf),
          Set_bird_RateLimitConf_Conf (Ratelimit conf), Set_bird_ParserConf (Parser conf),
          Set_endpoints_Conf (Server conf), Call_log_SetPrefix (time_Now env)]"
  let ?h = "LoggingHandler \<lparr>logger = \<lparr>prefix = time_Now env @ '' '' @ ''QUERY'' @ '': '', flag = 0\<rparr>\<rparr>
       (select_routes (ModulesEnabled (Server conf)) routes_table)"
  let ?b = "if EnableTLS (Server conf)
       then Call_ListenAndServeTLS (Listen ?active) (Crt (Server conf)) (Key (Server conf)) ?h
       else Call_ListenAndServe (Listen ?active) ?h"
  let ?ret = "if EnableTLS (Server conf)
       then ListenAndServeTLS env (Listen ?active) (Crt (Server conf)) (Key (Server conf)) ?h
       else ListenAndServe env (Listen ?active) ?h"
  let ?rest = "case ?ret of None \<Rightarrow> [] | Some err \<Rightarrow> [Log_Fatal [Err err]]"
  let ?out = "case ?ret of None \<Rightarrow> Serving | Some err \<Rightarrow> Exited 1"
  have run: "main env fl =
      ([Set_bird_WorkerPoolSize (workerPoolSize fl), Call_LoadConfigs [configfile fl], Check_TLS True]
         @ ?mid @ [Check_TLS True, ?b] @ ?rest, ?out)"
    using assms
    by (simp add: main_def makeRouter_eq tls_material_missing_def Fatal_of_listener_def Let_def
        split: option.splits)
  have mid: "checks ?mid = []" "bind_addrs ?mid = []"
    "IPVersion_writes ?mid = (if bird6 fl then [''6''] else [])"
    "ClientConf_writes ?mid = [?active]"
    by (simp_all add: observe_simps PrintServiceInfo_silent)
  have b: "bind_addrs [?b] = [Listen ?active]" "checks [?b] = []"
    "IPVersion_writes [?b] = []" "ClientConf_writes [?b] = []"
    by (simp_all add: observe_simps)
  have rest: "checks ?rest = []" "bind_addrs ?rest = []"
    "IPVersion_writes ?rest = []" "ClientConf_writes ?rest = []"
    by (simp_all add: observe_simps split: option.splits)
  have out: "?out = Serving \<or> ?out = Exited 1"
    by (simp split: option.splits)
  show ?thesis
    using run mid b rest out by blast
qed

lemmas example_run =
  main_def example_env_def example_conf_def default_flags_def makeRouter_eq select_routes_def
  routes_table_def PrintServiceInfo_def Fatal_of_listener_def tls_material_missing_def Let_def
  observe_simps

text \<open>
  Claim C2. When the configuration was loaded, TLS is enabled in it, and the certificate
  path or the key path is the empty string, \<^verbatim>\<open>main\<close> ends at the first check: the trace
  is the assignment of the worker pool size, the load, the failed check and the fatal log
  call, the process exits with status 1, and no listener was bound.
\<close>

theorem main_aborts_without_TLS_material:
  assumes "LoadConfigs env [configfile fl] = Inr conf"
    and "EnableTLS (Server conf)"
    and "Crt (Server conf) = [] \<or> Key (Server conf) = []"
  shows "(\<exists>msg. fst (main env fl) =
            [Set_bird_WorkerPoolSize (workerPoolSize fl), Call_LoadConfigs [configfile fl],
             Check_TLS False, Log_Fatalln [Str msg]])
       \<and> snd (main env fl) = Exited 1
       \<and> bind_addrs (fst (main env fl)) = []"
proof -
  have "tls_material_missing (Server conf)"
    using assms(2,3) by (auto simp: tls_material_missing_def)
  from main_material_missing [OF assms(1) this]
  obtain msg where "main env fl =
      ([Set_bird_WorkerPoolSize (workerPoolSize fl), Call_LoadConfigs [configfile fl],
        Check_TLS False, Log_Fatalln [Str msg]], Exited 1)"
    by blast
  then show ?thesis
    by (simp add: observe_simps)
qed

theorem main_aborts_without_TLS_material_witness:
  "snd (main (example_env (example_conf True ''/etc/ssl/bw.crt'' [])) default_flags) = Exited 1
   \<and> bind_addrs (fst (main (example_env (example_conf True ''/etc/ssl/bw.crt'' [])) default_flags)) = []
   \<and> checks (fst (main (example_env (example_conf True ''/etc/ssl/bw.crt'' [])) default_flags)) = [False]"
proof -
  let ?conf = "example_conf True ''/etc/ssl/bw.crt'' []"
  have a: "LoadConfigs (example_env ?conf) [configfile default_flags] = Inr ?conf"
    by (simp add: example_env_def)
  have b: "EnableTLS (Server ?conf)"
    by (simp add: example_conf_def)
  have c: "Crt (Server ?conf) = [] \<or> Key (Server ?conf) = []"
    by (simp add: example_conf_def)
  from main_aborts_without_TLS_material [OF a b c] show ?thesis
    by (auto simp: observe_simps)
qed

text \<open>
  Claim C6. When the configuration was loaded and passes the check of the TLS material,
  the active backend configuration is \<^verbatim>\<open>conf.Bird6\<close> if the flag \<^verbatim>\<open>-6\<close> is set and
  \<^verbatim>\<open>conf.Bird\<close> if it is not. The one listener that is bound is bound to the listen
  address of the active configuration, the one value assigned to \<^verbatim>\<open>bird.ClientConf\<close> is
  the active configuration, and it is the value of that variable after the run. With the
  flag set, \<^verbatim>\<open>bird.IPVersion\<close> is assigned once, the value \<^verbatim>\<open>"6"\<close>, and holds it after the
  run.
\<close>

theorem main_selects_backend:
  assumes "LoadConfigs env [configfile fl] = Inr conf"
    and "\<not> tls_material_missing (Server conf)"
  shows "bind_addrs (fst (main env fl)) = [Listen (if bird6 fl then Bird6 conf else Bird conf)]
       \<and> ClientConf_writes (fst (main env fl)) = [if bird6 fl then Bird6 conf else Bird conf]
       \<and> bird_ClientConf (replay (fst (main env fl)) g) = (if bird6 fl then Bird6 conf else Bird conf)
       \<and> (bird6 fl \<longrightarrow> IPVersion_writes (fst (main env fl)) = [''6'']
                      \<and> bird_IPVersion (replay (fst (main env fl)) g) = ''6'')"
proof -
  from main_started [OF assms]
  obtain mid b rest out where run: "main env fl =
      ([Set_bird_WorkerPoolSize (workerPoolSize fl), Call_LoadConfigs [configfile fl], Check_TLS True]
         @ mid @ [Check_TLS True, b] @ rest, out)"
    and b: "bind_addrs [b] = [Listen (if bird6 fl then Bird6 conf else Bird conf)]"
      "IPVersion_writes [b] = []" "ClientConf_writes [b] = []"
    and mid: "bind_addrs mid = []" "IPVersion_writes mid = (if bird6 fl then [''6''] else [])"
      "ClientConf_writes mid = [if bird6 fl then Bird6 conf else Bird conf]"
    and rest: "bind_addrs rest = []" "IPVersion_writes rest = []" "ClientConf_writes rest = []"
    by blast
  have split_b: "[Check_TLS True, b] = [Check_TLS True] @ [b]"
    by simp
  have binds: "bind_addrs (fst (main env fl)) = [Listen (if bird6 fl then Bird6 conf else Bird conf)]"
    unfolding run fst_conv split_b bind_addrs_append b mid rest
    by (simp add: observe_simps)
  have confs: "ClientConf_writes (fst (main env fl)) = [if bird6 fl then Bird6 conf else Bird conf]"
    unfolding run fst_conv split_b ClientConf_writes_append b mid rest
    by (simp add: observe_simps)
  have tags: "IPVersion_writes (fst (main env fl)) = (if bird6 fl then [''6''] else [])"
    unfolding run fst_conv split_b IPVersion_writes_append b mid rest
    by (simp add: observe_simps)
  show ?thesis
    using binds by (simp add: replay_ClientConf replay_IPVersion confs tags)
qed

theorem main_selects_backend_witness:
  "bind_addrs (fst (main (example_env (example_conf False [] [])) (default_flags\<lparr>bird6 := True\<rparr>)))
     = [''0.0.0.0:29186'']
   \<and> bird_ClientConf (replay (fst (main (example_env (example_conf False [] []))
        (default_flags\<lparr>bird6 := True\<rparr>))) example_globals)
     = \<lparr>Listen = ''0.0.0.0:29186'', BirdCmd = ''birdc6'', CacheTtl = 5\<rparr>
   \<and> bird_IPVersion (replay (fst (main (example_env (example_conf False [] []))
        (default_flags\<lparr>bird6 := True\<rparr>))) example_globals) = ''6''
   \<and> bind_addrs (fst (main (example_env (example_conf False [] [])) default_flags))
     = [''0.0.0.0:29184'']"
proof -
  let ?conf = "example_conf False [] []"
  have a: "LoadConfigs (example_env ?conf) [configfile fl] = Inr ?conf" for fl
    by (simp add: example_env_def)
  have b: "\<not> tls_material_missing (Server ?conf)"
    by (simp add: example_conf_def tls_material_missing_def)
  show ?thesis
    using main_selects_backend [OF a b, of "default_flags\<lparr>bird6 := True\<rparr>" example_globals]
      main_selects_backend [OF a b, of default_flags example_globals]
    by (simp add: example_conf_def default_flags_def)
qed

text \<open>
  Claim C7. The check of the TLS material is passed at two points of the startup
  sequence and nowhere else. When the load fails, no check happens and nothing is bound.
  When the load succeeds and the material is missing, the only check is the event right
  after the load, it fails, and nothing is bound. Otherwise the trace has two checks, the
  first right after the load and the second right before the call that binds the
  listener, both passed, and no other check or bind. So a run in which a listener is
  bound has passed exactly two checks.
\<close>

theorem main_TLS_checks:
  "(case LoadConfigs env [configfile fl] of
      Inl err \<Rightarrow> checks (fst (main env fl)) = [] \<and> bind_addrs (fst (main env fl)) = []
    | Inr conf \<Rightarrow>
        if tls_material_missing (Server conf)
        then (\<exists>rest. fst (main env fl) =
                [Set_bird_WorkerPoolSize (workerPoolSize fl), Call_LoadConfigs [configfile fl],
                 Check_TLS False] @ rest
              \<and> checks rest = [] \<and> bind_addrs rest = [])
        else (\<exists>mid b rest. fst (main env fl) =
                [Set_bird_WorkerPoolSize (workerPoolSize fl), Call_LoadConfigs [configfile fl],
                 Check_TLS True] @ mid @ [Check_TLS True, b] @ rest
              \<and> bind_addrs [b] \<noteq> []
              \<and> checks mid = [] \<and> bind_addrs mid = []
              \<and> checks rest = [] \<and> bind_addrs rest = []))
   \<and> (bind_addrs (fst (main env fl)) \<noteq> [] \<longrightarrow> checks (fst (main env fl)) = [True, True])
   \<and> length (checks (fst (main env fl))) \<le> 2"
proof (cases "LoadConfigs env [configfile fl]")
  case (Inl err)
  then show ?thesis
    by (simp add: main_load_failed [OF Inl] observe_simps)
next
  case (Inr conf)
  show ?thesis
  proof (cases "tls_material_missing (Server conf)")
    case True
    from main_material_missing [OF Inr True]
    obtain msg where "main env fl =
        ([Set_bird_WorkerPoolSize (workerPoolSize fl), Call_LoadConfigs [configfile fl],
          Check_TLS False, Log_Fatalln [Str msg]], Exited 1)"
      by blast
    then show ?thesis
      using Inr True by (simp add: observe_simps)
  next
    case False
    from main_started [OF Inr False]
    obtain mid b rest out where run: "main env fl =
        ([Set_bird_WorkerPoolSize (workerPoolSize fl), Call_LoadConfigs [configfile fl], Check_TLS True]
           @ mid @ [Check_TLS True, b] @ rest, out)"
      and b: "bind_addrs [b] = [Listen (if bird6 fl then Bird6 conf else Bird conf)]" "checks [b] = []"
      and mid: "checks mid = []" "bind_addrs mid = []"
      and rest: "checks rest = []" "bind_addrs rest = []"
      by blast
    have split_b: "[Check_TLS True, b] = [Check_TLS True] @ [b]"
      by simp
    have c: "checks (fst (main env fl)) = [True, True]"
      unfolding run fst_conv split_b checks_append b mid rest
      by (simp add: observe_simps)
    have "\<exists>mid b rest. fst (main env fl) =
        [Set_bird_WorkerPoolSize (workerPoolSize fl), Call_LoadConfigs [configfile fl],
         Check_TLS True] @ mid @ [Check_TLS True, b] @ rest
        \<and> bind_addrs [b] \<noteq> []
        \<and> checks mid = [] \<and> bind_addrs mid = []
        \<and> checks rest = [] \<and> bind_addrs rest = []"
      using run b mid rest by (intro exI [of _ mid] exI [of _ b] exI [of _ rest]) simp
    then show ?thesis
      using Inr False c by simp
  qed
qed

theorem main_TLS_checks_witness:
  "bind_addrs (fst (main (example_env (example_conf True ''/etc/ssl/bw.crt'' ''/etc/ssl/bw.key''))
      default_flags)) = [''0.0.0.0:29184'']
   \<and> checks (fst (main (example_env (example_conf True ''/etc/ssl/bw.crt'' ''/etc/ssl/bw.key''))
      default_flags)) = [True, True]"
proof -
  have a: "bind_addrs (fst (main (example_env (example_conf True ''/etc/ssl/bw.crt'' ''/etc/ssl/bw.key''))
      default_flags)) = [''0.0.0.0:29184'']"
    by (simp add: example_run)
  with main_TLS_checks [of "example_env (example_conf True ''/etc/ssl/bw.crt'' ''/etc/ssl/bw.key'')"
      default_flags]
  show ?thesis
    by simp
qed

text \<open>
  Claim C10. When the flag \<^verbatim>\<open>-6\<close> is not set, no run of \<^verbatim>\<open>main\<close> assigns
  \<^verbatim>\<open>bird.IPVersion\<close>, however the run goes, so the variable has after the run the value it
  had before. \<^verbatim>\<open>PrintServiceInfo\<close> assigns it in no case. (\<^verbatim>\<open>makeRouter\<close> and
  \<^verbatim>\<open>MyLogger.Write\<close> have no access to the variable: their results are a router and a
  log state.)
\<close>

theorem main_primary_keeps_IPVersion:
  assumes "\<not> bird6 fl"
  shows "IPVersion_writes (fst (main env fl)) = []
       \<and> bird_IPVersion (replay (fst (main env fl)) g) = bird_IPVersion g
       \<and> IPVersion_writes (PrintServiceInfo conf birdConf) = []"
proof -
  have none: "IPVersion_writes (fst (main env fl)) = []"
  proof (cases "LoadConfigs env [configfile fl]")
    case (Inl err)
    then show ?thesis
      by (simp add: main_load_failed [OF Inl] observe_simps)
  next
    case (Inr c)
    show ?thesis
    proof (cases "tls_material_missing (Server c)")
      case True
      from main_material_missing [OF Inr True] show ?thesis
        by (auto simp: observe_simps)
    next
      case False
      from main_started [OF Inr False]
      obtain mid b rest out where run: "main env fl =
          ([Set_bird_WorkerPoolSize (workerPoolSize fl), Call_LoadConfigs [configfile fl], Check_TLS True]
             @ mid @ [Check_TLS True, b] @ rest, out)"
        and w: "IPVersion_writes mid = (if bird6 fl then [''6''] else [])"
          "IPVersion_writes [b] = []" "IPVersion_writes rest = []"
        by blast
      have split_b: "[Check_TLS True, b] = [Check_TLS True] @ [b]"
        by simp
      show ?thesis
        unfolding run fst_conv split_b IPVersion_writes_append w
        using assms by (simp add: observe_simps)
    qed
  qed
  then show ?thesis
    by (simp add: replay_IPVersion PrintServiceInfo_IPVersion_writes)
qed

theorem main_primary_keeps_IPVersion_witness:
  "IPVersion_writes (fst (main (example_env (example_conf False [] [])) default_flags)) = []
   \<and> bird_IPVersion (replay (fst (main (example_env (example_conf False [] [])) default_flags))
        example_globals) = ''4''"
proof -
  have a: "\<not> bird6 default_flags"
    by (simp add: default_flags_def)
  from main_primary_keeps_IPVersion [OF a, where env = "example_env (example_conf False [] [])"
      and g = example_globals and conf = "example_conf False [] []"
      and birdConf = "Bird (example_conf False [] [])"]
  show ?thesis
    by (simp add: example_globals_def)
qed

end
